theory Spec2Isabelle
  imports Complex_Main
begin

section \<open>Cross-sectional mean reversion: the strategy of the notebook\<close>

text \<open>
  The program is the class \<open>CrossSectionalMR\<close> of
  \<^verbatim>\<open>notebooks/cross-sectional-mean-reversion-strategy-in-python-with-backtrader.ipynb\<close>:

  \<^verbatim>\<open>
  class CrossSectionalMR(bt.Strategy):
      def prenext(self):
          self.next()

      def next(self):
          # only look at data that existed yesterday
          available = list(filter(lambda d: len(d), self.datas))

          rets = np.zeros(len(available))
          for i, d in enumerate(available):
              # calculate individual daily returns
              rets[i] = (d.close[0]- d.close[-1]) / d.close[-1]

          # calculate weights using formula
          market_ret = np.mean(rets)
          weights = -(rets - market_ret)
          weights = weights / np.sum(np.abs(weights))

          for i, d in enumerate(available):
              self.order_target_percent(d, target=weights[i])
  \<close>

  Numbers come in two layers. The first computes in exact arithmetic: a finite float is a
  \<open>real\<close>, and what is kept is everything the two kinds of division do at a zero divisor:
  Python's float division raises, numpy's array division returns \<open>nan\<close> or \<open>\<plusminus>inf\<close> and
  goes on. It carries the statements that do not hang on a rounding: which feeds are
  computed over, which exception ends \<open>next\<close>, where zero is divided by zero. The second
  layer rounds every operation of the weight computation as \<open>float64\<close> does, and carries
  the statements that a rounding decides.
\<close>

subsection \<open>Numbers\<close>

datatype error = ZeroDivisionError | IndexError

text \<open>A numpy \<open>float64\<close>: a finite value, an infinity or \<open>nan\<close>.\<close>

datatype npfloat = Fin real | PInf | NInf | NaN

text \<open>Division of two Python floats, as in \<^verbatim>\<open>(d.close[0] - d.close[-1]) / d.close[-1]\<close>.\<close>

definition py_truediv :: "real \<Rightarrow> real \<Rightarrow> error + real" where
  "py_truediv x y = (if y = 0 then Inl ZeroDivisionError else Inr (x / y))"

fun np_neg :: "npfloat \<Rightarrow> npfloat" where
  "np_neg (Fin x) = Fin (- x)"
| "np_neg PInf = NInf"
| "np_neg NInf = PInf"
| "np_neg NaN = NaN"

fun np_abs :: "npfloat \<Rightarrow> npfloat" where
  "np_abs (Fin x) = Fin \<bar>x\<bar>"
| "np_abs PInf = PInf"
| "np_abs NInf = PInf"
| "np_abs NaN = NaN"

fun np_add :: "npfloat \<Rightarrow> npfloat \<Rightarrow> npfloat" where
  "np_add (Fin x) (Fin y) = Fin (x + y)"
| "np_add NaN _ = NaN"
| "np_add _ NaN = NaN"
| "np_add PInf NInf = NaN"
| "np_add NInf PInf = NaN"
| "np_add PInf _ = PInf"
| "np_add _ PInf = PInf"
| "np_add NInf _ = NInf"
| "np_add _ NInf = NInf"

definition np_sub :: "npfloat \<Rightarrow> npfloat \<Rightarrow> npfloat" where
  "np_sub a b = np_add a (np_neg b)"

text \<open>
  numpy's division: a zero divisor is no exception, \<open>0/0\<close> is \<open>nan\<close> and \<open>x/0\<close> an
  infinity of the sign of \<open>x\<close> (the divisors of this program, a sum of absolute values and
  an element count, are never a negative zero).
\<close>

fun np_div :: "npfloat \<Rightarrow> npfloat \<Rightarrow> npfloat" where
  "np_div (Fin x) (Fin y) =
     (if y \<noteq> 0 then Fin (x / y) else if x = 0 then NaN else if 0 < x then PInf else NInf)"
| "np_div NaN _ = NaN"
| "np_div _ NaN = NaN"
| "np_div (Fin x) _ = Fin 0"
| "np_div PInf (Fin y) = (if 0 \<le> y then PInf else NInf)"
| "np_div NInf (Fin y) = (if 0 \<le> y then NInf else PInf)"
| "np_div _ _ = NaN"

text \<open>\<^verbatim>\<open>np.sum\<close>: the empty sum is \<open>0.0\<close>.\<close>

fun np_sum :: "npfloat list \<Rightarrow> npfloat" where
  "np_sum [] = Fin 0"
| "np_sum (x # xs) = np_add x (np_sum xs)"

text \<open>\<^verbatim>\<open>np.mean\<close>: the sum over the count; of an empty array it is \<open>0.0/0 = nan\<close>.\<close>

definition np_mean :: "npfloat list \<Rightarrow> npfloat" where
  "np_mean arr = np_div (np_sum arr) (Fin (real (length arr)))"

subsection \<open>Data feeds and the strategy object\<close>

text \<open>
  A data feed \<open>d\<close> of the framework, as far as \<open>next\<close> reads it: its close line, that is
  the closes of the bars delivered so far, oldest first, so that \<open>len(d)\<close> is their number,
  \<open>d.close[0]\<close> the last of them and \<open>d.close[-1]\<close> the one before. Where the line is
  read before its first bar the answer is the framework's, which is not part of the
  notebook: it is the parameter \<open>before_first\<close>, a value or \<open>None\<close> for an \<open>IndexError\<close>.
\<close>

record feed =
  dataname :: string
  close_line :: "real list"
  before_first :: "real option"

definition len_feed :: "feed \<Rightarrow> nat" where
  "len_feed d = length (close_line d)"

text \<open>\<open>close_ago d k\<close> is \<^verbatim>\<open>d.close[-k]\<close>.\<close>

definition close_ago :: "feed \<Rightarrow> nat \<Rightarrow> error + real" where
  "close_ago d k =
     (if k < len_feed d then Inr (close_line d ! (len_feed d - 1 - k))
      else (case before_first d of None \<Rightarrow> Inl IndexError | Some v \<Rightarrow> Inr v))"

text \<open>
  The strategy object: its feeds, and the account value the broker keeps (cash plus open
  positions), which \<open>order_target_percent\<close> sizes against inside the framework.
\<close>

record strategy =
  datas :: "feed list"
  broker_value :: real

subsection \<open>\<open>CrossSectionalMR.next\<close>\<close>

text \<open>\<^verbatim>\<open>available = list(filter(lambda d: len(d), self.datas))\<close>\<close>

definition available :: "strategy \<Rightarrow> feed list" where
  "available self = filter (\<lambda>d. len_feed d \<noteq> 0) (datas self)"

text \<open>\<^verbatim>\<open>(d.close[0] - d.close[-1]) / d.close[-1]\<close>\<close>

definition daily_return :: "feed \<Rightarrow> error + real" where
  "daily_return d =
     (case close_ago d 0 of
        Inl e \<Rightarrow> Inl e
      | Inr c0 \<Rightarrow>
          (case close_ago d 1 of
             Inl e \<Rightarrow> Inl e
           | Inr c1 \<Rightarrow> py_truediv (c0 - c1) c1))"

text \<open>The loop that fills \<open>rets\<close>; the first exception ends it.\<close>

fun fill_rets :: "feed list \<Rightarrow> error + real list" where
  "fill_rets [] = Inr []"
| "fill_rets (d # ds) =
     (case daily_return d of
        Inl e \<Rightarrow> Inl e
      | Inr r \<Rightarrow> (case fill_rets ds of Inl e \<Rightarrow> Inl e | Inr rs \<Rightarrow> Inr (r # rs)))"

text \<open>\<^verbatim>\<open>market_ret = np.mean(rets)\<close>\<close>

definition market_ret :: "real list \<Rightarrow> npfloat" where
  "market_ret rets = np_mean (map Fin rets)"

text \<open>\<^verbatim>\<open>weights = -(rets - market_ret)\<close>\<close>

definition signal :: "real list \<Rightarrow> npfloat list" where
  "signal rets = map (\<lambda>r. np_neg (np_sub (Fin r) (market_ret rets))) rets"

text \<open>\<^verbatim>\<open>np.sum(np.abs(weights))\<close>\<close>

definition denom :: "npfloat list \<Rightarrow> npfloat" where
  "denom weights = np_sum (map np_abs weights)"

text \<open>\<^verbatim>\<open>weights = weights / np.sum(np.abs(weights))\<close>\<close>

definition normalise :: "npfloat list \<Rightarrow> npfloat list" where
  "normalise weights = map (\<lambda>w. np_div w (denom weights)) weights"

definition calc_weights :: "real list \<Rightarrow> npfloat list" where
  "calc_weights rets = normalise (signal rets)"

text \<open>
  \<open>strategy_next\<close> is \<open>next\<close> up to its last loop: the exception that ended the
  computation of the weights, or the calls
  \<^verbatim>\<open>self.order_target_percent(d, target=weights[i])\<close> that the last loop is about to
  make, in order.
\<close>

definition strategy_next :: "strategy \<Rightarrow> error + (feed \<times> npfloat) list" where
  "strategy_next self =
     (let av = available self in
      case fill_rets av of
        Inl e \<Rightarrow> Inl e
      | Inr rets \<Rightarrow> Inr (zip av (calc_weights rets)))"

definition prenext :: "strategy \<Rightarrow> error + (feed \<times> npfloat) list" where
  "prenext self = strategy_next self"

text \<open>
  The last loop. \<open>order_target_percent\<close> is the framework's: it sizes the order against
  the account and the price and hands it to the broker, and it may raise. It is the
  parameter \<open>otp\<close>, which takes the strategy object (with its account), the feed and the
  target, and returns the strategy object after the call or the exception. The first
  exception ends the loop and \<open>next\<close>.
\<close>

fun order_loop ::
  "(strategy \<Rightarrow> feed \<Rightarrow> npfloat \<Rightarrow> error + strategy) \<Rightarrow> strategy \<Rightarrow> (feed \<times> npfloat) list
    \<Rightarrow> error + strategy" where
  "order_loop otp self [] = Inr self"
| "order_loop otp self ((d, w) # calls) =
     (case otp self d w of
        Inl e \<Rightarrow> Inl e
      | Inr self' \<Rightarrow> order_loop otp self' calls)"

text \<open>The whole of \<open>next\<close>: the weights, then the calls.\<close>

definition next_run ::
  "(strategy \<Rightarrow> feed \<Rightarrow> npfloat \<Rightarrow> error + strategy) \<Rightarrow> strategy \<Rightarrow> error + strategy" where
  "next_run otp self =
     (case strategy_next self of
        Inl e \<Rightarrow> Inl e
      | Inr calls \<Rightarrow> order_loop otp self calls)"

subsection \<open>The weights in \<open>float64\<close>\<close>

text \<open>
  The three lines that compute the weights, once more, with the result of every
  addition, subtraction and division rounded as \<open>float64\<close> rounds it: to the nearest
  number with a significand of 53 bits, a tie to the even one, with the subnormal numbers
  below \<open>2^-1022\<close> (multiples of \<open>2^-1074\<close>) and an infinity from \<open>2^1024\<close> on.
  Negation and absolute value are exact. Zero has no sign here.
\<close>

text \<open>
  The nearest integer, a tie to the even one.
\<close>

definition rne :: "real \<Rightarrow> int" where
  "rne x = (let f = \<lfloor>x\<rfloor>; d = x - of_int f
            in if d < 1/2 then f else if 1/2 < d then f + 1 else if even f then f else f + 1)"

text \<open>
  The exponent \<open>e\<close> of the last place of a positive \<open>x\<close>:
  \<open>2^52 \<le> x / 2^e < 2^53\<close>, and \<open>e\<close> not below \<open>-1074\<close>.
\<close>

function halve :: "real \<Rightarrow> int \<Rightarrow> int" where
  "halve x e = (if 2 ^ 53 \<le> x then halve (x / 2) (e + 1) else e)"
  by pat_completeness auto
termination
proof (relation "measure (\<lambda>(x, e). nat \<lceil>x\<rceil>)")
  show "wf (measure (\<lambda>(x, e). nat \<lceil>x\<rceil>))" by simp
next
  fix x :: real and e :: int
  assume "2 ^ 53 \<le> x"
  then have "2 \<le> x" by simp
  then have "\<lceil>x / 2\<rceil> < \<lceil>x\<rceil>" by linarith
  moreover have "0 < \<lceil>x\<rceil>" using \<open>2 \<le> x\<close> by linarith
  ultimately show "((x / 2, e + 1), (x, e)) \<in> measure (\<lambda>(x, e). nat \<lceil>x\<rceil>)"
    by simp
qed

function double :: "real \<Rightarrow> int \<Rightarrow> int" where
  "double x e = (if x < 2 ^ 52 \<and> - 1074 < e then double (x * 2) (e - 1) else e)"
  by pat_completeness auto
termination
  by (relation "measure (\<lambda>(x, e). nat (e + 1074))") auto

definition pow2 :: "int \<Rightarrow> real" where
  "pow2 e = (if 0 \<le> e then 2 ^ nat e else 1 / 2 ^ nat (- e))"

definition r64 :: "real \<Rightarrow> npfloat" where
  "r64 x =
     (if x = 0 then Fin 0
      else
        let e = (if 2 ^ 53 \<le> \<bar>x\<bar> then halve \<bar>x\<bar> 0 else double \<bar>x\<bar> 0);
            y = of_int (rne (x / pow2 e)) * pow2 e
        in if 2 ^ 1024 \<le> \<bar>y\<bar> then (if 0 < x then PInf else NInf) else Fin y)"

text \<open>
  An operation of \<open>float64\<close> is the exact operation, then the rounding of a finite
  result.
\<close>

fun rnd :: "npfloat \<Rightarrow> npfloat" where
  "rnd (Fin x) = r64 x"
| "rnd v = v"

definition add64 :: "npfloat \<Rightarrow> npfloat \<Rightarrow> npfloat" where
  "add64 a b = rnd (np_add a b)"

definition sub64 :: "npfloat \<Rightarrow> npfloat \<Rightarrow> npfloat" where
  "sub64 a b = rnd (np_sub a b)"

definition div64 :: "npfloat \<Rightarrow> npfloat \<Rightarrow> npfloat" where
  "div64 a b = rnd (np_div a b)"

text \<open>
  \<^verbatim>\<open>np.sum\<close> adds an array of fewer than eight numbers from left to right, starting from
  \<open>0.0\<close>. A longer array is added in the blocks of the library's pairwise summation, which
  is not part of the notebook: it is the parameter \<open>blocked\<close>.
\<close>

definition sum64 :: "(npfloat list \<Rightarrow> npfloat) \<Rightarrow> npfloat list \<Rightarrow> npfloat" where
  "sum64 blocked arr = (if length arr < 8 then foldl add64 (Fin 0) arr else blocked arr)"

text \<open>
\<^verbatim>\<open>np.mean(rets)\<close>
\<close>

definition mean64 :: "(npfloat list \<Rightarrow> npfloat) \<Rightarrow> npfloat list \<Rightarrow> npfloat" where
  "mean64 blocked arr = div64 (sum64 blocked arr) (Fin (real (length arr)))"

text \<open>
\<^verbatim>\<open>weights = -(rets - market_ret)\<close>
\<close>

definition signal64 :: "(npfloat list \<Rightarrow> npfloat) \<Rightarrow> npfloat list \<Rightarrow> npfloat list" where
  "signal64 blocked rets = map (\<lambda>r. np_neg (sub64 r (mean64 blocked rets))) rets"

text \<open>
\<^verbatim>\<open>np.sum(np.abs(weights))\<close>
\<close>

definition denom64 :: "(npfloat list \<Rightarrow> npfloat) \<Rightarrow> npfloat list \<Rightarrow> npfloat" where
  "denom64 blocked weights = sum64 blocked (map np_abs weights)"

text \<open>
\<^verbatim>\<open>weights = weights / np.sum(np.abs(weights))\<close>
\<close>

definition normalise64 :: "(npfloat list \<Rightarrow> npfloat) \<Rightarrow> npfloat list \<Rightarrow> npfloat list" where
  "normalise64 blocked weights = map (\<lambda>w. div64 w (denom64 blocked weights)) weights"

definition calc_weights64 :: "(npfloat list \<Rightarrow> npfloat) \<Rightarrow> npfloat list \<Rightarrow> npfloat list" where
  "calc_weights64 blocked rets = normalise64 blocked (signal64 blocked rets)"

subsection \<open>The rule as the specification words it\<close>

text \<open>
  The specification's formulas over exact numbers, to compare the code with:
  \<open>r = close_today / close_yesterday - 1\<close>, the unweighted mean \<open>r_mean\<close>, the signal
  \<open>s = -(r - r_mean)\<close>, the normaliser \<open>sum |s|\<close> and the weight \<open>s / sum |s|\<close>.
\<close>

definition spec_return :: "real \<Rightarrow> real \<Rightarrow> real" where
  "spec_return c0 c1 = c0 / c1 - 1"

definition spec_mean :: "real list \<Rightarrow> real" where
  "spec_mean rs = sum_list rs / real (length rs)"

definition spec_signal :: "real list \<Rightarrow> real \<Rightarrow> real" where
  "spec_signal rs r = - (r - spec_mean rs)"

definition spec_denom :: "real list \<Rightarrow> real" where
  "spec_denom rs = (\<Sum>k\<leftarrow>rs. \<bar>spec_signal rs k\<bar>)"

definition spec_weight :: "real list \<Rightarrow> real \<Rightarrow> real" where
  "spec_weight rs r = spec_signal rs r / spec_denom rs"

text \<open>All the returns of the day are the same number.\<close>

definition all_equal :: "real list \<Rightarrow> bool" where
  "all_equal rs = list_all (\<lambda>r. r = hd rs) rs"

text \<open>
  The specification's eligibility: the close of the day and the close of the day before
  both exist, that is the close line holds a bar \<open>0\<close> and a bar \<open>1\<close> days ago.
\<close>

definition has_close :: "feed \<Rightarrow> nat \<Rightarrow> bool" where
  "has_close d k = (k < len_feed d)"

definition isEligible :: "feed \<Rightarrow> bool" where
  "isEligible d = (has_close d 0 \<and> has_close d 1)"

text \<open>
  A number that \<open>float64\<close> holds: the rounding leaves it as it is. Returns that are
  symmetric around their mean: the deviations from the mean and their negatives are the
  same numbers, as often.
\<close>

definition is_float64 :: "real \<Rightarrow> bool" where
  "is_float64 x = (r64 x = Fin x)"

definition symmetric_about_mean :: "real list \<Rightarrow> bool" where
  "symmetric_about_mean rs =
     (sort (map (\<lambda>r. r - spec_mean rs) rs) = sort (map (\<lambda>r. spec_mean rs - r) rs))"

subsection \<open>Concrete days\<close>

text \<open>A and B close at 100 and 100, then at 110 and 90; the account holds 1,000,000.\<close>

definition feed_A :: feed where
  "feed_A = \<lparr>dataname = ''A'', close_line = [100, 110], before_first = None\<rparr>"

definition feed_B :: feed where
  "feed_B = \<lparr>dataname = ''B'', close_line = [100, 90], before_first = None\<rparr>"

definition two_day :: strategy where
  "two_day = \<lparr>datas = [feed_A, feed_B], broker_value = 1000000\<rparr>"

text \<open>X and Y both rise by a tenth.\<close>

definition feed_X :: feed where
  "feed_X = \<lparr>dataname = ''X'', close_line = [100, 110], before_first = None\<rparr>"



text \<open>A universe of one instrument; and one whose close of the day before is 0.\<close>

definition single_day :: strategy where
  "single_day = \<lparr>datas = [feed_X], broker_value = 1000000\<rparr>"

definition feed_Z :: feed where
  "feed_Z = \<lparr>dataname = ''Z'', close_line = [0, 100], before_first = None\<rparr>"

definition single_zero_day :: strategy where
  "single_zero_day = \<lparr>datas = [feed_Z], broker_value = 1000000\<rparr>"

text \<open>
  C is newly listed: its first bar is today's. What the framework answers for the bar
  before is the parameter \<open>b\<close>.
\<close>

definition new_listing :: "real option \<Rightarrow> feed" where
  "new_listing b = \<lparr>dataname = ''C'', close_line = [50], before_first = b\<rparr>"

definition listing_day :: "real option \<Rightarrow> strategy" where
  "listing_day b = \<lparr>datas = [feed_A, feed_B, new_listing b], broker_value = 1000000\<rparr>"

text \<open>The account is empty.\<close>

definition ruined_day :: strategy where
  "ruined_day = \<lparr>datas = [feed_A, feed_B], broker_value = 0\<rparr>"

text \<open>W closes at 0 today; V closed at 0 the day before.\<close>

definition feed_W :: feed where
  "feed_W = \<lparr>dataname = ''W'', close_line = [100, 0], before_first = None\<rparr>"

definition zero_today_day :: strategy where
  "zero_today_day = \<lparr>datas = [feed_W, feed_B], broker_value = 1000000\<rparr>"

definition feed_V :: feed where
  "feed_V = \<lparr>dataname = ''V'', close_line = [0, 100], before_first = None\<rparr>"

definition zero_prior_day :: strategy where
  "zero_prior_day = \<lparr>datas = [feed_V, feed_B], broker_value = 1000000\<rparr>"

text \<open>
  Three instruments that rise by ten percent, from 100 to 110, from 1.1 to 1.21 and from
  200 to 220: their returns as \<open>float64\<close> computes them, the first and the third the
  number nearest to a tenth, the second a little below it. And the returns of A and B of
  above.
\<close>

definition ret_tenth :: real where
  "ret_tenth = 3602879701896397 / 2 ^ 55"

definition ret_near_tenth :: real where
  "ret_near_tenth = 7205759403792785 / 2 ^ 56"

definition ten_percent_day :: "real list" where
  "ten_percent_day = [ret_tenth, ret_near_tenth, ret_tenth]"


section \<open>Auxiliary facts\<close>

lemma np_sum_Fin: "np_sum (map Fin xs) = Fin (sum_list xs)"
  by (induction xs) simp_all

lemma market_ret_Fin: "rets \<noteq> [] \<Longrightarrow> market_ret rets = Fin (spec_mean rets)"
  by (simp add: market_ret_def np_mean_def np_sum_Fin spec_mean_def)

lemma market_ret_Nil: "market_ret [] = NaN"
  by (simp add: market_ret_def np_mean_def)

lemma signal_Fin: "signal rets = map (\<lambda>r. Fin (spec_signal rets r)) rets"
proof (cases "rets = []")
  case True
  then show ?thesis by (simp add: signal_def)
next
  case False
  then show ?thesis
    by (simp add: signal_def market_ret_Fin np_sub_def spec_signal_def)
qed

lemma denom_Fin: "denom (map Fin xs) = Fin (\<Sum>x\<leftarrow>xs. \<bar>x\<bar>)"
proof -
  have "map np_abs (map Fin xs) = map Fin (map abs xs)" by simp
  then show ?thesis unfolding denom_def by (simp only: np_sum_Fin)
qed

lemma denom_signal: "denom (signal rets) = Fin (spec_denom rets)"
proof -
  have "signal rets = map Fin (map (spec_signal rets) rets)"
    by (simp add: signal_Fin)
  then have "denom (signal rets) = Fin (\<Sum>x\<leftarrow>map (spec_signal rets) rets. \<bar>x\<bar>)"
    by (simp only: denom_Fin)
  then show ?thesis by (simp add: spec_denom_def comp_def)
qed

lemma calc_weights_eq:
  "calc_weights rets = map (\<lambda>r. np_div (Fin (spec_signal rets r)) (Fin (spec_denom rets))) rets"
  unfolding calc_weights_def normalise_def denom_signal
  by (simp add: signal_Fin comp_def)

lemma calc_weights_nonzero:
  "spec_denom rets \<noteq> 0 \<Longrightarrow> calc_weights rets = map (\<lambda>r. Fin (spec_weight rets r)) rets"
  by (simp add: calc_weights_eq spec_weight_def)

lemma spec_denom_zero_iff:
  "spec_denom rets = 0 \<longleftrightarrow> (\<forall>r\<in>set rets. spec_signal rets r = 0)"
  unfolding spec_denom_def by (subst sum_list_nonneg_eq_0_iff) auto

lemma calc_weights_zero:
  "spec_denom rets = 0 \<Longrightarrow> calc_weights rets = map (\<lambda>r. NaN) rets"
  using spec_denom_zero_iff[of rets] by (simp add: calc_weights_eq)

lemma all_equal_replicate: "all_equal rs \<Longrightarrow> rs = replicate (length rs) (hd rs)"
  unfolding all_equal_def list_all_iff
  by (metis replicate_length_same)

lemma all_equal_mean:
  assumes "all_equal rs" and "rs \<noteq> []"
  shows "spec_mean rs = hd rs"
proof -
  have "sum_list rs = sum_list (replicate (length rs) (hd rs))"
    using all_equal_replicate[OF assms(1)] by simp
  also have "\<dots> = real (length rs) * hd rs"
    by (simp add: sum_list_replicate)
  finally show ?thesis using assms(2) by (simp add: spec_mean_def)
qed

lemma all_equal_denom: "all_equal rs \<Longrightarrow> spec_denom rs = 0"
proof (cases "rs = []")
  case True
  then show ?thesis by (simp add: spec_denom_def)
next
  case False
  assume ae: "all_equal rs"
  have "\<forall>r\<in>set rs. r = hd rs"
    using ae by (simp add: all_equal_def list_all_iff)
  then have "\<forall>r\<in>set rs. spec_signal rs r = 0"
    by (simp add: spec_signal_def all_equal_mean[OF ae False])
  then show ?thesis by (simp add: spec_denom_zero_iff)
qed

lemma fill_rets_length: "fill_rets ds = Inr rets \<Longrightarrow> length rets = length ds"
  by (induction ds arbitrary: rets) (auto split: sum.splits)

lemma fill_rets_Inl:
  "d \<in> set ds \<Longrightarrow> daily_return d = Inl e \<Longrightarrow> \<exists>e'. fill_rets ds = Inl e'"
  by (induction ds) (auto split: sum.splits)

lemma strategy_next_ok:
  "fill_rets (available self) = Inr rets \<Longrightarrow>
     strategy_next self = Inr (zip (available self) (calc_weights rets))"
  by (simp add: strategy_next_def)

lemma calc_weights_length: "length (calc_weights rets) = length rets"
  by (simp add: calc_weights_eq)

lemma spec_mean_two: "spec_mean [1/10, - (1/10)] = 0"
  by (simp add: spec_mean_def)

lemma spec_denom_two: "spec_denom [1/10, - (1/10)] = 1/5"
  by (simp add: spec_denom_def spec_signal_def spec_mean_two)


lemma available_len: "d \<in> set (available self) \<Longrightarrow> len_feed d \<noteq> 0"
  by (simp add: available_def)

lemma strategy_next_fst:
  "strategy_next self = Inr orders \<Longrightarrow> map fst orders = available self"
  by (auto simp: strategy_next_def Let_def calc_weights_length fill_rets_length split: sum.splits)

lemma strategy_next_Inr:
  "strategy_next self = Inr orders \<Longrightarrow> \<exists>rets. fill_rets (available self) = Inr rets"
  by (auto simp: strategy_next_def Let_def split: sum.splits)

lemma eligible_is_available:
  "isEligible d \<Longrightarrow> d \<in> set (datas self) \<Longrightarrow> d \<in> set (available self)"
  by (simp add: isEligible_def has_close_def available_def)

lemma listing_rets:
  "fill_rets (available (listing_day (Some 100))) = Inr [1/10, - (1/10), - (1/2)]"
  by (simp add: available_def listing_day_def new_listing_def feed_A_def feed_B_def len_feed_def
      daily_return_def close_ago_def py_truediv_def)

lemma listing_calls:
  "strategy_next (listing_day (Some 100)) =
     Inr [(feed_A, Fin (- (2/5))), (feed_B, Fin (- (1/10))), (new_listing (Some 100), Fin (1/2))]"
  by (simp add: strategy_next_def available_def listing_day_def new_listing_def
      feed_A_def feed_B_def len_feed_def
      daily_return_def close_ago_def py_truediv_def
      calc_weights_def normalise_def denom_def signal_def market_ret_def np_mean_def np_sub_def)

lemma listing_eligible:
  "isEligible feed_A \<and> isEligible feed_B \<and> \<not> isEligible (new_listing b)"
  by (simp add: isEligible_def has_close_def len_feed_def feed_A_def feed_B_def new_listing_def)

lemmas float64_eval = r64_def rne_def pow2_def Let_def add64_def sub64_def div64_def sum64_def
  mean64_def signal64_def denom64_def normalise64_def calc_weights64_def np_sub_def

lemma returns_of_ten_percent:
  "div64 (sub64 (r64 110) (r64 100)) (r64 100) = Fin ret_tenth
   \<and> div64 (sub64 (r64 (121/100)) (r64 (11/10))) (r64 (11/10)) = Fin ret_near_tenth
   \<and> div64 (sub64 (r64 220) (r64 200)) (r64 200) = Fin ret_tenth"
  by (simp add: float64_eval ret_tenth_def ret_near_tenth_def)

lemma ten_percent_float64: "list_all is_float64 ten_percent_day"
  by (simp add: ten_percent_day_def is_float64_def ret_tenth_def ret_near_tenth_def
      r64_def rne_def pow2_def Let_def)

lemma ten_percent_asymmetric: "\<not> symmetric_about_mean ten_percent_day"
  by (simp add: symmetric_about_mean_def ten_percent_day_def spec_mean_def
      ret_tenth_def ret_near_tenth_def)

lemma ten_percent_denom:
  "denom64 blocked (signal64 blocked (map Fin ten_percent_day)) = Fin (11 / 2 ^ 56)"
  by (simp add: float64_eval ten_percent_day_def ret_tenth_def ret_near_tenth_def)

lemma ten_percent_weights:
  "calc_weights64 blocked (map Fin ten_percent_day)
   = [Fin (- (3275345183542179 / 2 ^ 54)), Fin (5731854071198813 / 2 ^ 53),
      Fin (- (3275345183542179 / 2 ^ 54))]"
  by (simp add: float64_eval ten_percent_day_def ret_tenth_def ret_near_tenth_def)





section \<open>The claims\<close>

text \<open>
  The eligible set \<open>E\<close> of the specification holds the feeds with today's close and
  the close of the day before (\<open>isEligible\<close>); the code computes over the list
  \<open>available\<close>. The two differ on the first day of a newly listed instrument.
\<close>

subsection \<open>The weight formula\<close>

text \<open>
  Claim C1: every instrument of \<open>E\<close> gets the weight \<open>-(r_i - r_mean) / sum |s_k|\<close>, mean
  and sum taken over \<open>E\<close>, and an instrument outside \<open>E\<close> gets the weight 0. On the day C is
  listed, with 100 as the framework's answer for the close before C's first, \<open>E\<close> is A and
  B, whose returns are a tenth up and a tenth down, so that the formula gives \<open>-1/2\<close> and
  \<open>1/2\<close>. The code computes over A, B and C: its targets are \<open>-2/5\<close> for A, \<open>-1/10\<close> for
  B and \<open>1/2\<close> for C, which is not in \<open>E\<close>. Where the framework raises on the read before
  the first bar, \<open>next\<close> ends with that exception and A and B get nothing.
\<close>

theorem listing_day_weights:
  "isEligible feed_A \<and> isEligible feed_B \<and> \<not> isEligible (new_listing (Some 100))
   \<and> daily_return feed_A = Inr (spec_return 110 100)
   \<and> daily_return feed_B = Inr (spec_return 90 100)
   \<and> spec_denom [spec_return 110 100, spec_return 90 100] \<noteq> 0
   \<and> spec_weight [spec_return 110 100, spec_return 90 100] (spec_return 110 100) = - (1/2)
   \<and> spec_weight [spec_return 110 100, spec_return 90 100] (spec_return 90 100) = 1/2
   \<and> strategy_next (listing_day (Some 100)) =
       Inr [(feed_A, Fin (- (2/5))), (feed_B, Fin (- (1/10))), (new_listing (Some 100), Fin (1/2))]
   \<and> strategy_next (listing_day None) = Inl IndexError"
proof -
  have r: "spec_return 110 100 = 1/10" "spec_return 90 100 = - (1/10)"
    by (simp_all add: spec_return_def)
  have a: "daily_return feed_A = Inr (1/10)" "daily_return feed_B = Inr (- (1/10))"
    by (simp_all add: feed_A_def feed_B_def len_feed_def daily_return_def close_ago_def
        py_truediv_def)
  have w: "spec_weight [1/10, - (1/10)] (1/10) = - (1/2)"
    "spec_weight [1/10, - (1/10)] (- (1/10)) = 1/2"
    by (simp_all add: spec_weight_def spec_denom_two spec_signal_def spec_mean_two)
  have n: "strategy_next (listing_day None) = Inl IndexError"
    by (simp add: strategy_next_def available_def listing_day_def new_listing_def
      feed_A_def feed_B_def len_feed_def daily_return_def close_ago_def py_truediv_def)
  show ?thesis
    using listing_eligible[of "Some 100"] listing_calls n
    by (simp add: r a w spec_denom_two)
qed

subsection \<open>Normalisation\<close>

text \<open>
  Claim C2: when \<open>E\<close> is not empty and its returns are not all equal, the absolute
  values of the weights of \<open>E\<close> sum to 1. On the same day, \<open>E\<close> is A and B with unequal
  returns, and the absolute values of their two targets sum to \<open>1/2\<close>: the other half is
  the target of C.
\<close>

theorem listing_day_abs_sum:
  "isEligible feed_A \<and> isEligible feed_B \<and> \<not> isEligible (new_listing (Some 100))
   \<and> daily_return feed_A \<noteq> daily_return feed_B
   \<and> strategy_next (listing_day (Some 100)) =
       Inr [(feed_A, Fin (- (2/5))), (feed_B, Fin (- (1/10))), (new_listing (Some 100), Fin (1/2))]
   \<and> np_sum (map (\<lambda>(d, w). np_abs w) (filter (\<lambda>(d, w). isEligible d)
       [(feed_A, Fin (- (2/5))), (feed_B, Fin (- (1/10))), (new_listing (Some 100), Fin (1/2))]))
       = Fin (1/2)"
proof -
  have a: "daily_return feed_A = Inr (1/10)" "daily_return feed_B = Inr (- (1/10))"
    by (simp_all add: feed_A_def feed_B_def len_feed_def daily_return_def close_ago_def
        py_truediv_def)
  show ?thesis
    using listing_eligible[of "Some 100"] listing_calls by (simp add: a)
qed

subsection \<open>A zero normaliser\<close>




text \<open>
  Claim C4 says that a universe of one instrument gets the weight 0 and that no
  division by zero stops the run. With X alone the target is \<open>nan\<close>, not 0; and with Z
  alone, whose close of the day before is 0, the return computation raises
  \<open>ZeroDivisionError\<close>.
\<close>

theorem single_instrument_counterexample:
  "available single_day = [feed_X]
   \<and> strategy_next single_day = Inr [(feed_X, NaN)]
   \<and> strategy_next single_day \<noteq> Inr [(feed_X, Fin 0)]
   \<and> available single_zero_day = [feed_Z]
   \<and> strategy_next single_zero_day = Inl ZeroDivisionError"
  by (simp add: strategy_next_def available_def single_day_def single_zero_day_def
      feed_X_def feed_Z_def len_feed_def
      daily_return_def close_ago_def py_truediv_def
      calc_weights_def normalise_def denom_def signal_def market_ret_def np_mean_def np_sub_def)

text \<open>
  Claim C4 as the code has it: when \<open>E\<close> holds exactly one instrument and the close
  before that \<open>next\<close> reads for it is not 0, \<open>next\<close> raises nothing and issues for it the
  single target \<open>nan\<close>.
\<close>

theorem single_instrument_nan:
  assumes "available self = [d]"
    and "close_ago d 1 = Inr c1"
    and "c1 \<noteq> 0"
  shows "strategy_next self = Inr [(d, NaN)]"
proof -
  have "d \<in> set (available self)" using assms(1) by simp
  then have "0 < len_feed d" using available_len by blast
  then obtain c0 where c0: "close_ago d 0 = Inr c0"
    by (simp add: close_ago_def)
  have r: "fill_rets (available self) = Inr [(c0 - c1) / c1]"
    using assms c0 by (simp add: daily_return_def py_truediv_def)
  have "all_equal [(c0 - c1) / c1]" by (simp add: all_equal_def)
  then have "spec_denom [(c0 - c1) / c1] = 0" by (rule all_equal_denom)
  then have "calc_weights [(c0 - c1) / c1] = [NaN]"
    using calc_weights_zero by fastforce
  then show ?thesis
    by (simp add: strategy_next_ok[OF r] assms(1))
qed

text \<open>
  The theorem at the day of X alone.
\<close>

theorem single_instrument_nan_witness:
  "available single_day = [feed_X] \<and> close_ago feed_X 1 = Inr 100 \<and> (100::real) \<noteq> 0
   \<and> strategy_next single_day = Inr [(feed_X, NaN)]"
proof -
  have a: "available single_day = [feed_X]"
    by (simp add: available_def single_day_def feed_X_def len_feed_def)
  have b: "close_ago feed_X 1 = Inr 100"
    by (simp add: close_ago_def feed_X_def len_feed_def)
  have c: "(100::real) \<noteq> 0" by simp
  show ?thesis
    using single_instrument_nan[OF a b c] a b by simp
qed

subsection \<open>Eligibility\<close>

text \<open>
  Claim C5: an instrument is in \<open>E\<close> exactly when its close of the day and of the day
  before both exist, and one whose first close is today's is left out. The filter of
  \<open>next\<close> keeps every feed with \<open>len(d)\<close> not zero, although its comment reads "only look at
  data that existed yesterday": the newly listed C, with its single bar, is in
  \<open>available\<close>, it has no close of the day before, and its return is computed from
  whatever the framework answers for the bar before the first.
\<close>

theorem new_listing_is_available:
  "new_listing b \<in> set (available (listing_day b))
   \<and> len_feed (new_listing b) = 1
   \<and> \<not> has_close (new_listing b) 1
   \<and> \<not> isEligible (new_listing b)
   \<and> daily_return (new_listing b)
       = (case b of None \<Rightarrow> Inl IndexError | Some v \<Rightarrow> py_truediv (50 - v) v)"
  by (simp add: available_def listing_day_def new_listing_def feed_A_def feed_B_def
      len_feed_def has_close_def isEligible_def daily_return_def close_ago_def
      split: option.splits)

subsection \<open>The sum of the weights\<close>

text \<open>
  Claim C6: some return profile over a nonempty set, not symmetric around its mean and
  with a nonzero normaliser, gets weights whose sum is not zero. In exact arithmetic
  there is none, the deviations from the mean summing to zero. In \<open>float64\<close> there is:
  for the three returns of ten percent above, the mean is rounded, the deviations are of
  the size of the rounding, the normaliser is \<open>11 / 2^56\<close>, and the weights are about
  \<open>-0.18\<close>, \<open>0.64\<close> and \<open>-0.18\<close>, with the sum \<open>1228254443828317 / 2^52\<close>, about
  \<open>0.27\<close>.
\<close>

theorem not_dollar_neutral_in_float64:
  "\<exists>rets. rets \<noteq> [] \<and> list_all is_float64 rets \<and> \<not> symmetric_about_mean rets
     \<and> denom64 blocked (signal64 blocked (map Fin rets)) \<noteq> Fin 0
     \<and> np_sum (calc_weights64 blocked (map Fin rets)) = Fin (1228254443828317 / 2 ^ 52)
     \<and> np_sum (calc_weights64 blocked (map Fin rets)) \<noteq> Fin 0"
proof -
  have s: "np_sum (calc_weights64 blocked (map Fin ten_percent_day))
      = Fin (1228254443828317 / 2 ^ 52)"
    by (simp add: ten_percent_weights)
  have "ten_percent_day \<noteq> []" by (simp add: ten_percent_day_def)
  moreover have "denom64 blocked (signal64 blocked (map Fin ten_percent_day)) \<noteq> Fin 0"
    by (simp add: ten_percent_denom)
  moreover have "np_sum (calc_weights64 blocked (map Fin ten_percent_day)) \<noteq> Fin 0"
    by (simp add: s)
  ultimately show ?thesis
    using ten_percent_float64 ten_percent_asymmetric s by blast
qed

subsection \<open>The two-instrument scenario\<close>

text \<open>
  Claim C7. A and B close at 100 and 100 on day 1 and at 110 and 90 on day 2. On day 2
  the returns are 0.10 and -0.10, their mean is 0, the signals are -0.10 and 0.10, the
  normaliser is 0.20, and \<open>next\<close> issues the targets -0.5 for A and 0.5 for B.
\<close>

theorem two_instrument_day:
  "fill_rets (available two_day) = Inr [1/10, - (1/10)]
   \<and> market_ret [1/10, - (1/10)] = Fin 0
   \<and> signal [1/10, - (1/10)] = [Fin (- (1/10)), Fin (1/10)]
   \<and> denom (signal [1/10, - (1/10)]) = Fin (2/10)
   \<and> strategy_next two_day = Inr [(feed_A, Fin (- (1/2))), (feed_B, Fin (1/2))]"
  by (simp add: strategy_next_def available_def two_day_def feed_A_def feed_B_def len_feed_def
      daily_return_def close_ago_def py_truediv_def
      calc_weights_def normalise_def denom_def signal_def market_ret_def np_mean_def np_sub_def)

subsection \<open>Equity\<close>

text \<open>
  Claim C8 says that a day that starts with an equity of zero or less fails with
  \<open>ZeroEquityError\<close>, with no weights and no orders. The code has no such check: with an
  equity of 0 the weights of A and B are computed as on any other day, and \<open>next\<close> goes on
  to its \<open>order_target_percent\<close> calls with them, whatever that function of the framework
  does.
\<close>

theorem zero_equity_counterexample:
  "broker_value ruined_day \<le> 0
   \<and> strategy_next ruined_day = Inr [(feed_A, Fin (- (1/2))), (feed_B, Fin (1/2))]
   \<and> (\<forall>otp. next_run otp ruined_day
         = order_loop otp ruined_day [(feed_A, Fin (- (1/2))), (feed_B, Fin (1/2))])"
proof -
  have c: "strategy_next ruined_day = Inr [(feed_A, Fin (- (1/2))), (feed_B, Fin (1/2))]"
    by (simp add: strategy_next_def available_def ruined_day_def feed_A_def feed_B_def len_feed_def
      daily_return_def close_ago_def py_truediv_def
      calc_weights_def normalise_def denom_def signal_def market_ret_def np_mean_def np_sub_def)
  have "broker_value ruined_day \<le> 0" by (simp add: ruined_day_def)
  then show ?thesis by (simp add: c next_run_def)
qed

text \<open>
  Claim C8 as the code has it: whatever the equity, zero or less included, the weights
  and the calls that \<open>next\<close> is about to make are the same, and nothing stands between
  them and the \<open>order_target_percent\<close> calls: \<open>next\<close> ends with an exception of the weight
  computation, or else runs its order loop with those calls. What a call does with the
  equity is the framework's, the parameter \<open>otp\<close>.
\<close>

theorem next_has_no_equity_check:
  "strategy_next (self\<lparr>broker_value := v\<rparr>) = strategy_next self
   \<and> next_run otp (self\<lparr>broker_value := v\<rparr>)
       = (case strategy_next self of
            Inl e \<Rightarrow> Inl e
          | Inr calls \<Rightarrow> order_loop otp (self\<lparr>broker_value := v\<rparr>) calls)"
proof -
  have "strategy_next (self\<lparr>broker_value := v\<rparr>) = strategy_next self"
    by (simp add: strategy_next_def available_def)
  then show ?thesis by (simp add: next_run_def)
qed

subsection \<open>A price of zero\<close>

text \<open>
  Claim C9 says that a close of 0, today's or the one before, raises
  \<open>InvalidPriceError\<close> for that instrument and leaves only it out of \<open>E\<close>, the run going on
  for the others. V closed at 0 the day before: \<open>next\<close> raises \<open>ZeroDivisionError\<close> in the
  return of V and makes no \<open>order_target_percent\<close> call at all, for B neither, whatever
  the framework's function is.
\<close>

theorem zero_price_counterexample:
  "feed_V \<in> set (available zero_prior_day) \<and> feed_B \<in> set (available zero_prior_day)
   \<and> close_ago feed_V 1 = Inr 0
   \<and> strategy_next zero_prior_day = Inl ZeroDivisionError
   \<and> (\<forall>otp. next_run otp zero_prior_day = Inl ZeroDivisionError)"
proof -
  have c: "strategy_next zero_prior_day = Inl ZeroDivisionError"
    by (simp add: strategy_next_def available_def zero_prior_day_def
      feed_V_def feed_B_def len_feed_def daily_return_def close_ago_def py_truediv_def)
  have "feed_V \<in> set (available zero_prior_day) \<and> feed_B \<in> set (available zero_prior_day)
     \<and> close_ago feed_V 1 = Inr 0"
    by (simp add: available_def zero_prior_day_def feed_V_def feed_B_def len_feed_def
        close_ago_def)
  then show ?thesis by (simp add: c next_run_def)
qed

text \<open>
  Claim C9 as the code has it, for the close of the day before: when \<open>next\<close> reads 0 as
  the close before of an instrument of the day, the return of that instrument raises
  \<open>ZeroDivisionError\<close>, and \<open>next\<close> ends with an exception before its order loop, so that
  no instrument gets an order that day. (A close of 0 today passes the return computation;
  what \<open>order_target_percent\<close> does at such a price is the framework's and is left
  open.)
\<close>

theorem zero_prior_close_aborts:
  assumes "d \<in> set (available self)"
    and "close_ago d 1 = Inr 0"
  shows "daily_return d = Inl ZeroDivisionError
     \<and> (\<exists>e. strategy_next self = Inl e \<and> next_run otp self = Inl e)"
proof -
  have "0 < len_feed d" using assms(1) available_len by blast
  then obtain c0 where "close_ago d 0 = Inr c0" by (simp add: close_ago_def)
  then have dr: "daily_return d = Inl ZeroDivisionError"
    using assms(2) by (simp add: daily_return_def py_truediv_def)
  obtain e' where "fill_rets (available self) = Inl e'"
    using fill_rets_Inl[OF assms(1) dr] by blast
  then have "strategy_next self = Inl e'"
    by (simp add: strategy_next_def)
  then have "strategy_next self = Inl e' \<and> next_run otp self = Inl e'"
    by (simp add: next_run_def)
  with dr show ?thesis by blast
qed

text \<open>
  The theorem at V on its day.
\<close>

theorem zero_prior_close_aborts_witness:
  "feed_V \<in> set (available zero_prior_day) \<and> close_ago feed_V 1 = Inr 0
   \<and> daily_return feed_V = Inl ZeroDivisionError
   \<and> (\<forall>otp. \<exists>e. strategy_next zero_prior_day = Inl e \<and> next_run otp zero_prior_day = Inl e)"
proof -
  have a: "feed_V \<in> set (available zero_prior_day)"
    by (simp add: available_def zero_prior_day_def feed_V_def len_feed_def)
  have b: "close_ago feed_V 1 = Inr 0"
    by (simp add: close_ago_def feed_V_def len_feed_def)
  show ?thesis
    using zero_prior_close_aborts[OF a b] a b by blast
qed

subsection \<open>Translation of the returns\<close>




end
